theory Spec2Isabelle
  imports Main "HOL-Library.Sublist"
begin

section \<open>The BNPL analytics agent: credential rotation and the pipeline runner\<close>

text \<open>
  A shallow embedding of \<^verbatim>\<open>src/agents/src/graph.py\<close>. The module keeps three
  process-wide variables (\<^verbatim>\<open>_current_key_index\<close>, \<^verbatim>\<open>_llm_instance\<close>,
  \<^verbatim>\<open>_agent_graph\<close>); they are the record \<open>globals\<close>, passed to every function and
  returned updated. What the module reads from outside on each call (the two environment
  variables, and whether the two client packages can be imported) is the record \<open>env\<close>.

  The module constant \<^verbatim>\<open>BACKUP_API_KEYS\<close> is a list of three credential strings. Their
  values are not reproduced here: every function takes the list as the parameter \<open>keys\<close>,
  and the theorems hold for every list (of the length they state).
\<close>

subsection \<open>Data\<close>

text \<open>
  The cached client. The constructor calls of the source pass the credential the client is
  bound to (\<^verbatim>\<open>google_api_key=api_key\<close>, \<^verbatim>\<open>api_key=openai_key\<close>); the model keeps it.
\<close>

datatype llm = ChatGoogleGenerativeAI string | ChatOpenAI string

text \<open>
  The compiled graph. \<^verbatim>\<open>create_agent_graph\<close> hands the client (or \<^verbatim>\<open>None\<close>) to the
  five nodes and compiles; the model keeps the client the nodes were built with.
\<close>

datatype graph = CompiledGraph "llm option"

record env =
  GOOGLE_API_KEY :: "string option"
  OPENAI_API_KEY :: "string option"
  have_google_genai :: bool
  have_openai :: bool

record globals =
  current_key_index :: int
  llm_instance :: "llm option"
  agent_graph :: "graph option"

text \<open>The module's initial values: index 0, no client, no graph.\<close>

definition initial_globals :: globals where
  "initial_globals = \<lparr>current_key_index = 0, llm_instance = None, agent_graph = None\<rparr>"

text \<open>
  What a graph run can raise, as far as \<^verbatim>\<open>run_query\<close> tells failures apart: whether the
  exception is an instance of \<^verbatim>\<open>Exception\<close> (the handler of line 213 catches only those;
  a cancellation or an interrupt derives from \<^verbatim>\<open>BaseException\<close> alone), and its text
  \<^verbatim>\<open>str(e)\<close>.
\<close>

datatype failure = Exception string | BaseException string

text \<open>
  What can leave a function of the module: a failure of the graph run passed on, or the
  \<^verbatim>\<open>ZeroDivisionError\<close> of line 64.
\<close>

datatype py_error = Raised failure | ZeroDivisionError

text \<open>
  Python's truth value of an \<^verbatim>\<open>Optional[str]\<close>: \<^verbatim>\<open>None\<close> and the empty string are
  false, every other string is true.
\<close>

fun truthy :: "string option \<Rightarrow> bool" where
  "truthy None = False"
| "truthy (Some s) = (s \<noteq> [])"

subsection \<open>The credential pool\<close>

text \<open>
  \<^verbatim>\<open>get_next_api_key\<close> (lines 38-54). It returns the credential and writes
  \<^verbatim>\<open>_current_key_index\<close> in its last branch only.
\<close>

definition get_next_api_key :: "env \<Rightarrow> string list \<Rightarrow> globals \<Rightarrow> string option \<times> globals" where
  "get_next_api_key e keys g =
     (let env_key = GOOGLE_API_KEY e in
      if truthy env_key \<and> current_key_index g = 0 then (env_key, g)
      else
        let backup_index = (if truthy env_key then current_key_index g - 1 else current_key_index g) in
        if 0 \<le> backup_index \<and> backup_index < int (length keys)
        then (Some (keys ! nat backup_index), g)
        else (if keys \<noteq> [] then Some (keys ! 0) else None,
              g\<lparr>current_key_index := (if truthy env_key then 1 else 0)\<rparr>))"

text \<open>\<^verbatim>\<open>max_keys\<close> of \<^verbatim>\<open>rotate_api_key\<close> (line 62): the size of the pool.\<close>

definition max_keys :: "env \<Rightarrow> string list \<Rightarrow> int" where
  "max_keys e keys = int (length keys) + (if truthy (GOOGLE_API_KEY e) then 1 else 0)"

text \<open>
  \<^verbatim>\<open>rotate_api_key\<close> (lines 57-67). Python's \<^verbatim>\<open>%\<close> raises on a zero modulus, before
  either global is written; for a positive modulus it is the \<open>mod\<close> of \<open>int\<close>. The
  \<^verbatim>\<open>print\<close> is not modelled.
\<close>

definition rotate_api_key :: "env \<Rightarrow> string list \<Rightarrow> globals \<Rightarrow> py_error + globals" where
  "rotate_api_key e keys g =
     (if max_keys e keys = 0 then Inl ZeroDivisionError
      else Inr (g\<lparr>current_key_index := (current_key_index g + 1) mod max_keys e keys,
                 llm_instance := None\<rparr>))"

text \<open>Calling \<^verbatim>\<open>rotate_api_key\<close> \<open>n\<close> times in a row; an exception ends the sequence.\<close>

fun rotate_times :: "nat \<Rightarrow> env \<Rightarrow> string list \<Rightarrow> globals \<Rightarrow> py_error + globals" where
  "rotate_times 0 e keys g = Inr g"
| "rotate_times (Suc n) e keys g =
     (case rotate_api_key e keys g of
        Inl err \<Rightarrow> Inl err
      | Inr g' \<Rightarrow> rotate_times n e keys g')"

text \<open>
  The pool in priority order, as the specification's data model has it: the environment
  credential first when it is set, then the backup list.
\<close>

definition credentials :: "env \<Rightarrow> string list \<Rightarrow> string list" where
  "credentials e keys =
     (case GOOGLE_API_KEY e of
        None \<Rightarrow> keys
      | Some k \<Rightarrow> if k \<noteq> [] then k # keys else keys)"

text \<open>
  The data model's invariant on the pool state: the index is a position of the pool.
\<close>

definition valid_index :: "env \<Rightarrow> string list \<Rightarrow> globals \<Rightarrow> bool" where
  "valid_index e keys g = (0 \<le> current_key_index g \<and> current_key_index g < max_keys e keys)"

text \<open>
  \<^verbatim>\<open>get_llm\<close> (lines 70-111). A cached client is returned as it is; otherwise the Gemini
  client is built with the current credential when there is one and the package is
  installed, else the OpenAI client, else nothing. The constructors are taken to succeed;
  the warnings printed are not modelled.
\<close>

definition get_llm :: "env \<Rightarrow> string list \<Rightarrow> globals \<Rightarrow> llm option \<times> globals" where
  "get_llm e keys g =
     (case llm_instance g of
        Some l \<Rightarrow> (Some l, g)
      | None \<Rightarrow>
          (case get_next_api_key e keys g of (api_key, g1) \<Rightarrow>
             (case (if truthy api_key \<and> have_google_genai e then api_key else None) of
                Some k \<Rightarrow> (Some (ChatGoogleGenerativeAI k),
                           g1\<lparr>llm_instance := Some (ChatGoogleGenerativeAI k)\<rparr>)
              | None \<Rightarrow>
                  (case (if truthy (OPENAI_API_KEY e) \<and> have_openai e
                         then OPENAI_API_KEY e else None) of
                     Some k \<Rightarrow> (Some (ChatOpenAI k), g1\<lparr>llm_instance := Some (ChatOpenAI k)\<rparr>)
                   | None \<Rightarrow> (None, g1)))))"

text \<open>\<^verbatim>\<open>create_agent_graph\<close> (lines 114-166) and \<^verbatim>\<open>get_agent\<close> (lines 173-178).\<close>

definition create_agent_graph :: "env \<Rightarrow> string list \<Rightarrow> globals \<Rightarrow> graph \<times> globals" where
  "create_agent_graph e keys g = (case get_llm e keys g of (l, g1) \<Rightarrow> (CompiledGraph l, g1))"

definition get_agent :: "env \<Rightarrow> string list \<Rightarrow> globals \<Rightarrow> graph \<times> globals" where
  "get_agent e keys g =
     (case agent_graph g of
        Some a \<Rightarrow> (a, g)
      | None \<Rightarrow>
          (case create_agent_graph e keys g of (a, g1) \<Rightarrow> (a, g1\<lparr>agent_graph := Some a\<rparr>)))"

subsection \<open>The pipeline graph\<close>

text \<open>
  Modelled from the spec: the execution record. The class \<^verbatim>\<open>AgentState\<close> is imported
  from \<^verbatim>\<open>.state\<close>, which is not among the sources. \<^verbatim>\<open>graph.py\<close> reads and writes the
  fields \<^verbatim>\<open>user_query\<close>, \<^verbatim>\<open>session_id\<close>, \<^verbatim>\<open>validation\<close> (with its
  \<^verbatim>\<open>retry_needed\<close>), \<^verbatim>\<open>retry_count\<close>, \<^verbatim>\<open>max_retries\<close> and \<^verbatim>\<open>final_response\<close>;
  the specification's data model adds one intermediate field per stage (classification,
  plan, raw execution result), kept here as uninterpreted text.
\<close>

record validation_result =
  retry_needed :: bool
  detail :: string

record agent_state =
  user_query :: string
  session_id :: "string option"
  classification :: "string option"
  plan :: "string option"
  execution_result :: "string option"
  validation :: "validation_result option"
  final_response :: "string option"
  retry_count :: int
  max_retries :: int

text \<open>
  Modelled from the spec: \<^verbatim>\<open>AgentState(user_query=query, session_id=session_id)\<close>. Every
  intermediate field is absent and \<open>retry_count\<close> starts at 0; the default of
  \<open>max_retries\<close> is declared in the missing \<^verbatim>\<open>.state\<close> and is the parameter \<open>k\<close>.
\<close>

definition AgentState :: "int \<Rightarrow> string \<Rightarrow> string option \<Rightarrow> agent_state" where
  "AgentState k query sid =
     \<lparr>user_query = query, session_id = sid, classification = None, plan = None,
      execution_result = None, validation = None, final_response = None,
      retry_count = 0, max_retries = k\<rparr>"

datatype node = Router | Planner | Executor | Validator | Narrator

text \<open>
  \<^verbatim>\<open>should_retry\<close> (lines 147-152), the selector of the conditional edge leaving the
  validator. \<^verbatim>\<open>state.validation\<close> is an object or \<^verbatim>\<open>None\<close>, so its truth value is
  whether it is present.
\<close>

definition should_retry :: "agent_state \<Rightarrow> node" where
  "should_retry s =
     (case validation s of
        None \<Rightarrow> Narrator
      | Some v \<Rightarrow>
          if retry_needed v then (if retry_count s < max_retries s then Executor else Narrator)
          else Narrator)"







subsection \<open>The pipeline runner\<close>

text \<open>
  What \<^verbatim>\<open>agent.ainvoke\<close> hands back: a dictionary or an object with attributes
  (line 209 tests which). Of a dictionary only the entries holding an \<^verbatim>\<open>Optional[str]\<close>
  are modelled; a present key may hold \<^verbatim>\<open>None\<close>.
\<close>

datatype final_state = StateDict "string \<Rightarrow> string option option" | StateObject agent_state

text \<open>
  The graph run is outside this module: \<open>ainvoke attempt agent initial_state\<close> is what the
  compiled graph answers at the given outer attempt, a terminal state or the exception it
  raises.
\<close>

type_synonym ainvoke = "nat \<Rightarrow> graph \<Rightarrow> agent_state \<Rightarrow> failure + final_state"

text \<open>Lines 209-211: the value \<^verbatim>\<open>run_query\<close> returns for a terminal state.\<close>

definition response :: "final_state \<Rightarrow> string option" where
  "response fs =
     (case fs of
        StateDict d \<Rightarrow>
          (case d ''final_response'' of
             None \<Rightarrow> Some ''No response generated''
           | Some v \<Rightarrow> v)
      | StateObject s \<Rightarrow>
          if truthy (final_response s) then final_response s
          else Some ''No response generated'')"

text \<open>
  \<^verbatim>\<open>str.lower\<close> on the ASCII letters; other characters are left as they are.
\<close>

definition lower_char :: "char \<Rightarrow> char" where
  "lower_char c =
     (if (65::nat) \<le> of_char c \<and> of_char c \<le> (90::nat) then char_of (of_char c + (32::nat)) else c)"

definition lower :: "string \<Rightarrow> string" where
  "lower s = map lower_char s"

definition rate_limit_terms :: "string list" where
  "rate_limit_terms = [''rate limit'', ''quota'', ''429'', ''resource exhausted'']"

text \<open>
  Lines 214-216. Python's \<^verbatim>\<open>term in error_msg\<close> on strings is the contiguous-substring
  test, \<open>sublist\<close>.
\<close>

definition is_rate_limited :: "string \<Rightarrow> bool" where
  "is_rate_limited description =
     list_ex (\<lambda>term. sublist term (lower description)) rate_limit_terms"

definition exhausted_message :: string where
  "exhausted_message = ''Error: All API keys exhausted. Please try again later.''"

text \<open>
  One iteration of the loop of \<^verbatim>\<open>run_query\<close> (lines 196-222): it returns, raises, or
  falls through to the next iteration. The handler is \<^verbatim>\<open>except Exception\<close>: a failure
  that is not an \<^verbatim>\<open>Exception\<close> passes it by and leaves the function as it is. An
  exception of \<^verbatim>\<open>rotate_api_key\<close> inside the handler leaves the function too.
\<close>

datatype step = Return "string option" | Raise py_error | Continue

definition attempt_body ::
  "env \<Rightarrow> string list \<Rightarrow> int \<Rightarrow> ainvoke \<Rightarrow> string \<Rightarrow> string option \<Rightarrow> nat \<Rightarrow> globals \<Rightarrow> step \<times> globals" where
  "attempt_body e keys k invoke query sid attempt g =
     (case get_agent e keys g of (agent, g1) \<Rightarrow>
        (case invoke attempt agent (AgentState k query sid) of
           Inr fs \<Rightarrow> (Return (response fs), g1)
         | Inl (Exception description) \<Rightarrow>
             if is_rate_limited description
             then (case rotate_api_key e keys g1 of
                     Inl err \<Rightarrow> (Raise err, g1)
                   | Inr g2 \<Rightarrow> (Continue, g2\<lparr>agent_graph := None\<rparr>))
             else (Raise (Raised (Exception description)), g1)
         | Inl (BaseException description) \<Rightarrow>
             (Raise (Raised (BaseException description)), g1)))"

text \<open>
  What a call of \<^verbatim>\<open>run_query\<close> leaves behind: the value returned or the exception
  raised, and the globals. The two counters are bookkeeping of the model: the iterations
  of the loop entered and the calls of \<^verbatim>\<open>rotate_api_key\<close> completed.
\<close>

record run_result =
  outcome :: "py_error + string option"
  final_globals :: globals
  attempts_made :: nat
  rotations_made :: nat

text \<open>
  \<^verbatim>\<open>for attempt in range(max_retries)\<close> over the attempts still to come, and the
  \<^verbatim>\<open>return\<close> of line 224 once the range is used up.
\<close>

fun for_attempts ::
  "env \<Rightarrow> string list \<Rightarrow> int \<Rightarrow> ainvoke \<Rightarrow> string \<Rightarrow> string option \<Rightarrow> nat list \<Rightarrow> globals \<Rightarrow> run_result" where
  "for_attempts e keys k invoke query sid [] g =
     \<lparr>outcome = Inr (Some exhausted_message), final_globals = g,
      attempts_made = 0, rotations_made = 0\<rparr>"
| "for_attempts e keys k invoke query sid (attempt # rest) g =
     (case attempt_body e keys k invoke query sid attempt g of
        (Return v, g') \<Rightarrow>
          \<lparr>outcome = Inr v, final_globals = g', attempts_made = 1, rotations_made = 0\<rparr>
      | (Raise err, g') \<Rightarrow>
          \<lparr>outcome = Inl err, final_globals = g', attempts_made = 1, rotations_made = 0\<rparr>
      | (Continue, g') \<Rightarrow>
          (case for_attempts e keys k invoke query sid rest g' of r \<Rightarrow>
             r\<lparr>attempts_made := Suc (attempts_made r),
               rotations_made := Suc (rotations_made r)\<rparr>))"

text \<open>\<^verbatim>\<open>run_query\<close> (lines 181-224); \<^verbatim>\<open>max_retries\<close> of line 193 is \<open>length keys + 1\<close>.\<close>

definition run_query ::
  "env \<Rightarrow> string list \<Rightarrow> int \<Rightarrow> ainvoke \<Rightarrow> string \<Rightarrow> string option \<Rightarrow> globals \<Rightarrow> run_result" where
  "run_query e keys k invoke query sid g =
     for_attempts e keys k invoke query sid [0 ..< length keys + 1] g"

subsection \<open>Auxiliary definitions for the statements\<close>

text \<open>Calling \<^verbatim>\<open>get_next_api_key\<close> \<open>n\<close> times in a row: the credentials returned and the
  globals left behind.\<close>

fun get_next_api_key_times :: "nat \<Rightarrow> env \<Rightarrow> string list \<Rightarrow> globals \<Rightarrow> string option list \<times> globals" where
  "get_next_api_key_times 0 e keys g = ([], g)"
| "get_next_api_key_times (Suc n) e keys g =
     (case get_next_api_key e keys g of (c, g1) \<Rightarrow>
        (case get_next_api_key_times n e keys g1 of (cs, g2) \<Rightarrow> (c # cs, g2)))"

text \<open>
  The invariant of the cached client: a cached Gemini client is bound to the credential at
  the current index.
\<close>

definition handle_fresh :: "env \<Rightarrow> string list \<Rightarrow> globals \<Rightarrow> bool" where
  "handle_fresh e keys g =
     (case llm_instance g of
        None \<Rightarrow> True
      | Some (ChatOpenAI k) \<Rightarrow> True
      | Some (ChatGoogleGenerativeAI k) \<Rightarrow>
          k = credentials e keys ! nat (current_key_index g))"

text \<open>
  Lines 213-216 taken together: the failure is caught by the handler and its text is
  classified as rate limiting.
\<close>

definition rate_limited_failure :: "failure \<Rightarrow> bool" where
  "rate_limited_failure f =
     (case f of
        Exception description \<Rightarrow> is_rate_limited description
      | BaseException description \<Rightarrow> False)"

text \<open>One more outer attempt that ended in a rotation, added to the counters of a result.\<close>

definition count_attempt :: "run_result \<Rightarrow> run_result" where
  "count_attempt r =
     r\<lparr>attempts_made := Suc (attempts_made r), rotations_made := Suc (rotations_made r)\<rparr>"

subsection \<open>Concrete inputs\<close>

definition env_with_key :: env where
  "env_with_key =
     \<lparr>GOOGLE_API_KEY = Some ''ENV-KEY'', OPENAI_API_KEY = None,
      have_google_genai = True, have_openai = False\<rparr>"

definition env_without_key :: env where
  "env_without_key =
     \<lparr>GOOGLE_API_KEY = None, OPENAI_API_KEY = None,
      have_google_genai = True, have_openai = False\<rparr>"

definition three_keys :: "string list" where
  "three_keys = [''BACKUP-1'', ''BACKUP-2'', ''BACKUP-3'']"

definition globals_at :: "int \<Rightarrow> globals" where
  "globals_at i = \<lparr>current_key_index = i, llm_instance = None, agent_graph = None\<rparr>"

definition always_throttled :: ainvoke where
  "always_throttled attempt agent s = Inl (Exception ''429 Too Many Requests'')"

definition throttled_then_fatal :: ainvoke where
  "throttled_then_fatal attempt agent s =
     (if attempt = 0 then Inl (Exception ''429 Too Many Requests'')
      else Inl (Exception ''connection reset''))"

definition always_fatal :: ainvoke where
  "always_fatal attempt agent s = Inl (Exception ''connection reset'')"

definition cancelled_with_429 :: ainvoke where
  "cancelled_with_429 attempt agent s = Inl (BaseException ''429 Too Many Requests'')"

definition answers_none_in_dict :: ainvoke where
  "answers_none_in_dict attempt agent s = Inr (StateDict [''final_response'' \<mapsto> None])"



section \<open>Properties of the credential pool\<close>

lemma max_keys_nonneg: "0 \<le> max_keys e keys"
  by (simp add: max_keys_def)

lemma valid_index_pos: "valid_index e keys g \<Longrightarrow> 0 < max_keys e keys"
  by (simp add: valid_index_def)

lemma length_credentials: "int (length (credentials e keys)) = max_keys e keys"
  by (cases "GOOGLE_API_KEY e") (simp_all add: credentials_def max_keys_def)

lemma get_next_api_key_valid:
  assumes "valid_index e keys g"
  shows "get_next_api_key e keys g = (Some (credentials e keys ! nat (current_key_index g)), g)"
proof (cases "truthy (GOOGLE_API_KEY e)")
  case True
  then obtain k where k: "GOOGLE_API_KEY e = Some k" "k \<noteq> []"
    by (cases "GOOGLE_API_KEY e") auto
  show ?thesis
  proof (cases "current_key_index g = 0")
    case True
    with k show ?thesis
      by (simp add: get_next_api_key_def credentials_def)
  next
    case False
    with assms k have range: "0 \<le> current_key_index g - 1" "current_key_index g - 1 < int (length keys)"
      by (simp_all add: valid_index_def max_keys_def)
    from False assms have "nat (current_key_index g) = Suc (nat (current_key_index g - 1))"
      unfolding valid_index_def by arith
    with False k range show ?thesis
      by (simp add: get_next_api_key_def credentials_def)
  qed
next
  case False
  then have creds: "credentials e keys = keys"
    by (cases "GOOGLE_API_KEY e") (simp_all add: credentials_def)
  from False assms have "0 \<le> current_key_index g" "current_key_index g < int (length keys)"
    by (simp_all add: valid_index_def max_keys_def)
  with False creds show ?thesis
    by (simp add: get_next_api_key_def)
qed

lemma get_next_api_key_times_valid:
  assumes "valid_index e keys g"
  shows "get_next_api_key_times n e keys g =
           (replicate n (Some (credentials e keys ! nat (current_key_index g))), g)"
  using assms by (induction n) (simp_all add: get_next_api_key_valid)

lemma rotate_api_key_Inr:
  assumes "0 < max_keys e keys"
  shows "rotate_api_key e keys g =
           Inr (g\<lparr>current_key_index := (current_key_index g + 1) mod max_keys e keys,
                  llm_instance := None\<rparr>)"
  using assms by (simp add: rotate_api_key_def)

lemma valid_index_rotated:
  assumes "0 < max_keys e keys"
  shows "valid_index e keys
           (g\<lparr>current_key_index := (current_key_index g + 1) mod max_keys e keys,
              llm_instance := None\<rparr>)"
  using assms by (simp add: valid_index_def)

lemma rotate_times_Inr:
  assumes "0 < max_keys e keys"
  shows "rotate_times n e keys g =
           Inr (if n = 0 then g
                else g\<lparr>current_key_index := (current_key_index g + int n) mod max_keys e keys,
                       llm_instance := None\<rparr>)"
proof (induction n arbitrary: g)
  case 0
  show ?case by simp
next
  case (Suc n)
  have "((current_key_index g + 1) mod max_keys e keys + int n) mod max_keys e keys
          = (current_key_index g + (1 + int n)) mod max_keys e keys"
    by (simp add: mod_add_left_eq add.assoc)
  with Suc [of "g\<lparr>current_key_index := (current_key_index g + 1) mod max_keys e keys,
                  llm_instance := None\<rparr>"] assms
  show ?case
    by (simp add: rotate_api_key_Inr add.commute)
qed

lemma get_llm_fresh:
  assumes "valid_index e keys g" and "llm_instance g = None"
  shows "get_llm e keys g =
           (if have_google_genai e \<and> credentials e keys ! nat (current_key_index g) \<noteq> []
            then (Some (ChatGoogleGenerativeAI (credentials e keys ! nat (current_key_index g))),
                  g\<lparr>llm_instance :=
                      Some (ChatGoogleGenerativeAI (credentials e keys ! nat (current_key_index g)))\<rparr>)
            else if truthy (OPENAI_API_KEY e) \<and> have_openai e
            then (map_option ChatOpenAI (OPENAI_API_KEY e),
                  g\<lparr>llm_instance := map_option ChatOpenAI (OPENAI_API_KEY e)\<rparr>)
            else (None, g))"
  using assms
  by (cases "OPENAI_API_KEY e") (auto simp: get_llm_def get_next_api_key_valid)

lemma get_llm_index:
  assumes "valid_index e keys g"
  shows "current_key_index (snd (get_llm e keys g)) = current_key_index g"
    and "agent_graph (snd (get_llm e keys g)) = agent_graph g"
proof -
  show "current_key_index (snd (get_llm e keys g)) = current_key_index g"
  proof (cases "llm_instance g")
    case None
    with assms show ?thesis by (simp add: get_llm_fresh)
  next
    case (Some l)
    then show ?thesis by (simp add: get_llm_def)
  qed
  show "agent_graph (snd (get_llm e keys g)) = agent_graph g"
  proof (cases "llm_instance g")
    case None
    with assms show ?thesis by (simp add: get_llm_fresh)
  next
    case (Some l)
    then show ?thesis by (simp add: get_llm_def)
  qed
qed

lemma get_llm_handle_fresh:
  assumes "valid_index e keys g" and "handle_fresh e keys g"
  shows "handle_fresh e keys (snd (get_llm e keys g))"
proof (cases "llm_instance g")
  case None
  with assms show ?thesis
    by (cases "OPENAI_API_KEY e") (simp_all add: get_llm_fresh handle_fresh_def)
next
  case (Some l)
  with assms show ?thesis by (simp add: get_llm_def)
qed

lemma get_agent_index:
  assumes "valid_index e keys g"
  shows "current_key_index (snd (get_agent e keys g)) = current_key_index g"
proof (cases "agent_graph g")
  case None
  with get_llm_index(1) [OF assms] show ?thesis
    by (cases "get_llm e keys g") (simp add: get_agent_def create_agent_graph_def)
next
  case (Some a)
  then show ?thesis by (simp add: get_agent_def)
qed

text \<open>
  C9, as the code has it. \<^verbatim>\<open>get_next_api_key\<close> (the pool's \<open>current()\<close>) on a pool
  state whose index is a position of the pool returns the credential at that position and
  leaves every global as it was; called any number \<open>n\<close> of times in a row it returns the
  same credential \<open>n\<close> times and still leaves the globals as they were.
\<close>

theorem current_is_pure:
  assumes "valid_index e keys g"
  shows "get_next_api_key e keys g = (Some (credentials e keys ! nat (current_key_index g)), g)
       \<and> get_next_api_key_times n e keys g =
           (replicate n (Some (credentials e keys ! nat (current_key_index g))), g)"
  using assms by (simp add: get_next_api_key_valid get_next_api_key_times_valid)

theorem current_is_pure_witness:
  "valid_index env_with_key three_keys (globals_at 2)
   \<and> get_next_api_key env_with_key three_keys (globals_at 2) = (Some ''BACKUP-2'', globals_at 2)
   \<and> get_next_api_key_times 3 env_with_key three_keys (globals_at 2) =
       ([Some ''BACKUP-2'', Some ''BACKUP-2'', Some ''BACKUP-2''], globals_at 2)"
proof -
  have v: "valid_index env_with_key three_keys (globals_at 2)"
    by (simp add: valid_index_def max_keys_def env_with_key_def three_keys_def globals_at_def)
  have c: "credentials env_with_key three_keys ! nat (current_key_index (globals_at 2)) = ''BACKUP-2''"
    by (simp add: credentials_def env_with_key_def three_keys_def globals_at_def)
  have r: "replicate 3 (Some ''BACKUP-2'') = [Some ''BACKUP-2'', Some ''BACKUP-2'', Some ''BACKUP-2'']"
    by (simp add: numeral_3_eq_3)
  from current_is_pure [OF v, of 3] v show ?thesis
    unfolding c r by simp
qed

text \<open>
  The claim C9 as the specification words it, for every pool state, fails where the index
  is not a position of the pool: the last branch of \<^verbatim>\<open>get_next_api_key\<close> (lines 52-54)
  writes \<^verbatim>\<open>_current_key_index\<close>. Without an environment credential and with three
  backups, index 3 is set to 0; with an environment credential, index 7 is set to 1. Both
  calls return the first backup.
\<close>

theorem current_resets_stray_index:
  "get_next_api_key env_without_key three_keys (globals_at 3) = (Some ''BACKUP-1'', globals_at 0)
   \<and> globals_at 0 \<noteq> globals_at 3
   \<and> get_next_api_key env_with_key three_keys (globals_at 7) = (Some ''BACKUP-1'', globals_at 1)
   \<and> globals_at 1 \<noteq> globals_at 7"
  by (simp add: get_next_api_key_def env_without_key_def env_with_key_def three_keys_def
        globals_at_def)

text \<open>
  C6. On a pool of size \<open>n = max_keys\<close> whose index is a position of the pool, one call of
  \<^verbatim>\<open>rotate_api_key\<close> (the pool's \<open>advance()\<close>) moves the index to \<open>(index + 1) mod n\<close>,
  and \<open>n\<close> calls in a row bring the index back to where it started (the cached client is
  gone, the graph is untouched).
\<close>

theorem advance_is_cyclic:
  assumes "valid_index e keys g"
  shows "rotate_api_key e keys g =
           Inr (g\<lparr>current_key_index := (current_key_index g + 1) mod max_keys e keys,
                  llm_instance := None\<rparr>)
       \<and> rotate_times (nat (max_keys e keys)) e keys g = Inr (g\<lparr>llm_instance := None\<rparr>)"
proof -
  from assms have pos: "0 < max_keys e keys" and range: "0 \<le> current_key_index g"
      "current_key_index g < max_keys e keys"
    by (simp_all add: valid_index_def)
  from range have wrap: "(current_key_index g + max_keys e keys) mod max_keys e keys = current_key_index g"
    by simp
  have "rotate_times (nat (max_keys e keys)) e keys g =
          Inr (g\<lparr>current_key_index := (current_key_index g + max_keys e keys) mod max_keys e keys,
                 llm_instance := None\<rparr>)"
    using pos by (simp add: rotate_times_Inr [OF pos])
  with wrap have "rotate_times (nat (max_keys e keys)) e keys g = Inr (g\<lparr>llm_instance := None\<rparr>)"
    by simp
  with pos show ?thesis
    by (simp add: rotate_api_key_Inr)
qed

theorem advance_is_cyclic_witness:
  "valid_index env_without_key three_keys (globals_at 2)
   \<and> rotate_api_key env_without_key three_keys (globals_at 2) = Inr (globals_at 0)
   \<and> rotate_times 3 env_without_key three_keys (globals_at 2) = Inr (globals_at 2)"
proof -
  have v: "valid_index env_without_key three_keys (globals_at 2)"
    by (simp add: valid_index_def max_keys_def env_without_key_def three_keys_def globals_at_def)
  have m: "max_keys env_without_key three_keys = 3"
    by (simp add: max_keys_def env_without_key_def three_keys_def)
  from advance_is_cyclic [OF v] v show ?thesis
    unfolding m by (simp add: globals_at_def)
qed

text \<open>
  C7, as the code has it. With an environment credential and a non-empty backup list of
  \<open>N\<close> keys, \<^verbatim>\<open>get_next_api_key\<close> hands out the environment credential at index 0 and
  backup \<open>i\<close> at index \<open>i\<close> in \<open>1..N\<close>, leaving the globals alone; only for an index
  outside \<open>0..N\<close> does it set the index to 1 and return the first backup. Since
  \<^verbatim>\<open>rotate_api_key\<close> wraps modulo \<open>N + 1\<close>, \<open>N + 1\<close> rotations from index 0 end at
  index 0 again, where the environment credential is handed out again.
\<close>

theorem env_credential_at_index_zero:
  assumes "truthy (GOOGLE_API_KEY e)" and "keys \<noteq> []"
  shows "get_next_api_key e keys g =
           (if current_key_index g = 0 then (GOOGLE_API_KEY e, g)
            else if 1 \<le> current_key_index g \<and> current_key_index g \<le> int (length keys)
            then (Some (keys ! nat (current_key_index g - 1)), g)
            else (Some (keys ! 0), g\<lparr>current_key_index := 1\<rparr>))
       \<and> rotate_times (Suc (length keys)) e keys (g\<lparr>current_key_index := 0\<rparr>) =
           Inr (g\<lparr>current_key_index := 0, llm_instance := None\<rparr>)"
proof -
  from assms(1) have m: "max_keys e keys = int (Suc (length keys))"
    by (simp add: max_keys_def)
  then have pos: "0 < max_keys e keys"
    by simp
  have "rotate_times (Suc (length keys)) e keys (g\<lparr>current_key_index := 0\<rparr>) =
          Inr (g\<lparr>current_key_index := 0, llm_instance := None\<rparr>)"
    unfolding rotate_times_Inr [OF pos] m by simp
  moreover have "get_next_api_key e keys g =
           (if current_key_index g = 0 then (GOOGLE_API_KEY e, g)
            else if 1 \<le> current_key_index g \<and> current_key_index g \<le> int (length keys)
            then (Some (keys ! nat (current_key_index g - 1)), g)
            else (Some (keys ! 0), g\<lparr>current_key_index := 1\<rparr>))"
    using assms by (auto simp: get_next_api_key_def)
  ultimately show ?thesis by simp
qed

theorem env_credential_at_index_zero_witness:
  "truthy (GOOGLE_API_KEY env_with_key) \<and> three_keys \<noteq> []
   \<and> get_next_api_key env_with_key three_keys (globals_at 3) = (Some ''BACKUP-3'', globals_at 3)
   \<and> get_next_api_key env_with_key three_keys (globals_at 7) = (Some ''BACKUP-1'', globals_at 1)
   \<and> rotate_times 4 env_with_key three_keys (globals_at 0) = Inr (globals_at 0)"
proof -
  have t: "truthy (GOOGLE_API_KEY env_with_key)" and k: "three_keys \<noteq> []"
    by (simp_all add: env_with_key_def three_keys_def)
  have n: "Suc (length three_keys) = 4"
    by (simp add: three_keys_def)
  from env_credential_at_index_zero [OF t k, of "globals_at 3"]
       env_credential_at_index_zero [OF t k, of "globals_at 7"]
       env_credential_at_index_zero [OF t k, of "globals_at 0"] t k
  show ?thesis
    unfolding n by (simp add: globals_at_def three_keys_def)
qed

text \<open>
  The claim C7 as the specification words it fails: on the pool of the environment
  credential and three backups, started at index 0, four rotations wrap around to index 0,
  and there \<^verbatim>\<open>get_next_api_key\<close> returns the environment credential, not the first
  backup.
\<close>

theorem wraparound_returns_env_credential:
  "rotate_times 4 env_with_key three_keys initial_globals = Inr initial_globals
   \<and> fst (get_next_api_key env_with_key three_keys initial_globals) = GOOGLE_API_KEY env_with_key
   \<and> fst (get_next_api_key env_with_key three_keys initial_globals) \<noteq> Some (three_keys ! 0)"
  by (simp add: eval_nat_numeral rotate_api_key_def max_keys_def get_next_api_key_def
        env_with_key_def three_keys_def initial_globals_def)

text \<open>
  C8. On a pool state whose index is a position of the pool and whose cached Gemini client
  (if any) is bound to the credential at that index: \<^verbatim>\<open>rotate_api_key\<close> succeeds and
  leaves no cached client; the next \<^verbatim>\<open>get_llm\<close> builds and caches a client, the Gemini
  client bound to the credential at the new index when that package is installed and the
  credential is not empty, and the OpenAI client or none otherwise; and the invariant holds
  after \<^verbatim>\<open>rotate_api_key\<close>, after that \<^verbatim>\<open>get_llm\<close>, and after \<^verbatim>\<open>get_llm\<close> and
  \<^verbatim>\<open>get_next_api_key\<close> on the state before the rotation.
\<close>

theorem advance_clears_cached_handle:
  assumes "valid_index e keys g" and "handle_fresh e keys g"
  shows "\<exists>g1. rotate_api_key e keys g = Inr g1
            \<and> current_key_index g1 = (current_key_index g + 1) mod max_keys e keys
            \<and> llm_instance g1 = None
            \<and> valid_index e keys g1 \<and> handle_fresh e keys g1
            \<and> fst (get_llm e keys g1) =
                (if have_google_genai e \<and> credentials e keys ! nat (current_key_index g1) \<noteq> []
                 then Some (ChatGoogleGenerativeAI (credentials e keys ! nat (current_key_index g1)))
                 else if truthy (OPENAI_API_KEY e) \<and> have_openai e
                 then map_option ChatOpenAI (OPENAI_API_KEY e)
                 else None)
            \<and> snd (get_llm e keys g1) = g1\<lparr>llm_instance := fst (get_llm e keys g1)\<rparr>
            \<and> handle_fresh e keys (snd (get_llm e keys g1))
            \<and> handle_fresh e keys (snd (get_llm e keys g))
            \<and> handle_fresh e keys (snd (get_next_api_key e keys g))"
proof -
  let ?g1 = "g\<lparr>current_key_index := (current_key_index g + 1) mod max_keys e keys,
               llm_instance := None\<rparr>"
  from assms(1) have pos: "0 < max_keys e keys"
    by (rule valid_index_pos)
  have rot: "rotate_api_key e keys g = Inr ?g1"
    by (rule rotate_api_key_Inr [OF pos])
  have v1: "valid_index e keys ?g1"
    by (rule valid_index_rotated [OF pos])
  have none: "llm_instance ?g1 = None"
    by simp
  have f1: "handle_fresh e keys ?g1"
    by (simp add: handle_fresh_def)
  note fresh = get_llm_fresh [OF v1 none]
  have built: "fst (get_llm e keys ?g1) =
                (if have_google_genai e \<and> credentials e keys ! nat (current_key_index ?g1) \<noteq> []
                 then Some (ChatGoogleGenerativeAI (credentials e keys ! nat (current_key_index ?g1)))
                 else if truthy (OPENAI_API_KEY e) \<and> have_openai e
                 then map_option ChatOpenAI (OPENAI_API_KEY e)
                 else None)"
    unfolding fresh by simp
  have cached: "snd (get_llm e keys ?g1) = ?g1\<lparr>llm_instance := fst (get_llm e keys ?g1)\<rparr>"
    unfolding fresh by simp
  have f2: "handle_fresh e keys (snd (get_llm e keys ?g1))"
    by (rule get_llm_handle_fresh [OF v1 f1])
  have f3: "handle_fresh e keys (snd (get_llm e keys g))"
    by (rule get_llm_handle_fresh [OF assms])
  have f4: "handle_fresh e keys (snd (get_next_api_key e keys g))"
    using assms by (simp add: get_next_api_key_valid)
  have idx: "current_key_index ?g1 = (current_key_index g + 1) mod max_keys e keys"
    by simp
  from rot idx none v1 f1 built cached f2 f3 f4 show ?thesis
    by blast
qed

theorem advance_clears_cached_handle_witness:
  "valid_index env_with_key three_keys
     \<lparr>current_key_index = 0, llm_instance = Some (ChatGoogleGenerativeAI ''ENV-KEY''),
      agent_graph = None\<rparr>
   \<and> handle_fresh env_with_key three_keys
     \<lparr>current_key_index = 0, llm_instance = Some (ChatGoogleGenerativeAI ''ENV-KEY''),
      agent_graph = None\<rparr>
   \<and> rotate_api_key env_with_key three_keys
       \<lparr>current_key_index = 0, llm_instance = Some (ChatGoogleGenerativeAI ''ENV-KEY''),
        agent_graph = None\<rparr> = Inr (globals_at 1)
   \<and> get_llm env_with_key three_keys (globals_at 1) =
       (Some (ChatGoogleGenerativeAI ''BACKUP-1''),
        \<lparr>current_key_index = 1, llm_instance = Some (ChatGoogleGenerativeAI ''BACKUP-1''),
         agent_graph = None\<rparr>)"
proof -
  let ?g = "\<lparr>current_key_index = 0, llm_instance = Some (ChatGoogleGenerativeAI ''ENV-KEY''),
             agent_graph = None\<rparr>"
  have v: "valid_index env_with_key three_keys ?g"
    by (simp add: valid_index_def max_keys_def env_with_key_def three_keys_def)
  have f: "handle_fresh env_with_key three_keys ?g"
    by (simp add: handle_fresh_def credentials_def env_with_key_def)
  have m: "max_keys env_with_key three_keys = 4"
    by (simp add: max_keys_def env_with_key_def three_keys_def)
  have c: "credentials env_with_key three_keys ! nat (current_key_index (globals_at 1)) = ''BACKUP-1''"
    by (simp add: credentials_def env_with_key_def three_keys_def globals_at_def)
  have h: "have_google_genai env_with_key"
    by (simp add: env_with_key_def)
  from advance_clears_cached_handle [OF v f] obtain g1 where g1:
    "rotate_api_key env_with_key three_keys ?g = Inr g1"
    "current_key_index g1 = (current_key_index ?g + 1) mod max_keys env_with_key three_keys"
    "llm_instance g1 = None"
    "fst (get_llm env_with_key three_keys g1) =
       (if have_google_genai env_with_key
           \<and> credentials env_with_key three_keys ! nat (current_key_index g1) \<noteq> []
        then Some (ChatGoogleGenerativeAI
                     (credentials env_with_key three_keys ! nat (current_key_index g1)))
        else if truthy (OPENAI_API_KEY env_with_key) \<and> have_openai env_with_key
        then map_option ChatOpenAI (OPENAI_API_KEY env_with_key)
        else None)"
    "snd (get_llm env_with_key three_keys g1) =
       g1\<lparr>llm_instance := fst (get_llm env_with_key three_keys g1)\<rparr>"
    by blast
  from g1(1) have g1_eq: "g1 = globals_at 1"
    by (simp add: rotate_api_key_def m globals_at_def)
  from g1(4) have built: "fst (get_llm env_with_key three_keys (globals_at 1)) =
      Some (ChatGoogleGenerativeAI ''BACKUP-1'')"
    unfolding g1_eq c using h by simp
  from g1(5) built have "snd (get_llm env_with_key three_keys (globals_at 1)) =
      \<lparr>current_key_index = 1, llm_instance = Some (ChatGoogleGenerativeAI ''BACKUP-1''),
       agent_graph = None\<rparr>"
    unfolding g1_eq by (simp add: globals_at_def)
  with built have "get_llm env_with_key three_keys (globals_at 1) =
       (Some (ChatGoogleGenerativeAI ''BACKUP-1''),
        \<lparr>current_key_index = 1, llm_instance = Some (ChatGoogleGenerativeAI ''BACKUP-1''),
         agent_graph = None\<rparr>)"
    by (simp add: prod_eq_iff)
  with v f g1(1) g1_eq show ?thesis
    by simp
qed

section \<open>Properties of the pipeline graph\<close>



lemma should_retry_Executor:
  "(should_retry s = Executor) =
     (\<exists>v. validation s = Some v \<and> retry_needed v \<and> retry_count s < max_retries s)"
  by (cases "validation s") (simp_all add: should_retry_def)

lemma should_retry_Narrator:
  "(should_retry s = Narrator) =
     (\<not> (\<exists>v. validation s = Some v \<and> retry_needed v \<and> retry_count s < max_retries s))"
  by (cases "validation s") (simp_all add: should_retry_def)


text \<open>
  C3. \<^verbatim>\<open>should_retry\<close> selects the executor exactly when a verdict is present, its
  \<open>retry_needed\<close> is set and \<open>retry_count < max_retries\<close>; in every other case, an
  absent verdict included, it selects the narrator.
\<close>

theorem should_retry_selects:
  "((should_retry s = Executor) =
      (\<exists>v. validation s = Some v \<and> retry_needed v \<and> retry_count s < max_retries s))
   \<and> ((should_retry s = Narrator) =
      (\<not> (\<exists>v. validation s = Some v \<and> retry_needed v \<and> retry_count s < max_retries s)))
   \<and> should_retry (s\<lparr>validation := None\<rparr>) = Narrator"
proof -
  have "should_retry (s\<lparr>validation := None\<rparr>) = Narrator"
    by (simp add: should_retry_def)
  with should_retry_Executor [of s] should_retry_Narrator [of s] show ?thesis
    by blast
qed




section \<open>Properties of the pipeline runner\<close>

lemma is_rate_limited_iff:
  "is_rate_limited d =
     (sublist ''rate limit'' (lower d) \<or> sublist ''quota'' (lower d)
      \<or> sublist ''429'' (lower d) \<or> sublist ''resource exhausted'' (lower d))"
  by (simp add: is_rate_limited_def rate_limit_terms_def)

lemma rate_limited_failure_iff:
  "rate_limited_failure f =
     (case f of
        Exception d \<Rightarrow>
          sublist ''rate limit'' (lower d) \<or> sublist ''quota'' (lower d)
          \<or> sublist ''429'' (lower d) \<or> sublist ''resource exhausted'' (lower d)
      | BaseException d \<Rightarrow> False)"
  by (cases f) (simp_all add: rate_limited_failure_def is_rate_limited_iff)

lemma attempt_body_failure:
  assumes "invoke attempt (fst (get_agent e keys g)) (AgentState k query sid) = Inl f"
  shows "attempt_body e keys k invoke query sid attempt g =
           (if rate_limited_failure f
            then (case rotate_api_key e keys (snd (get_agent e keys g)) of
                    Inl err \<Rightarrow> (Raise err, snd (get_agent e keys g))
                  | Inr g2 \<Rightarrow> (Continue, g2\<lparr>agent_graph := None\<rparr>))
            else (Raise (Raised f), snd (get_agent e keys g)))"
  using assms
  by (cases f) (simp_all add: attempt_body_def case_prod_beta rate_limited_failure_def)

lemma for_attempts_throttled:
  assumes "invoke attempt (fst (get_agent e keys g)) (AgentState k query sid) = Inl f"
    and "rate_limited_failure f" and "0 < max_keys e keys"
  shows "for_attempts e keys k invoke query sid (attempt # rest) g =
           count_attempt (for_attempts e keys k invoke query sid rest
             ((snd (get_agent e keys g))
                \<lparr>current_key_index :=
                   (current_key_index (snd (get_agent e keys g)) + 1) mod max_keys e keys,
                 llm_instance := None, agent_graph := None\<rparr>))"
  using assms(2)
  by (simp add: attempt_body_failure [where invoke = invoke and attempt = attempt, OF assms(1)]
        rotate_api_key_Inr [OF assms(3)] count_attempt_def)

lemma for_attempts_fatal:
  assumes "invoke attempt (fst (get_agent e keys g)) (AgentState k query sid) = Inl f"
    and "\<not> rate_limited_failure f"
  shows "for_attempts e keys k invoke query sid (attempt # rest) g =
           \<lparr>outcome = Inl (Raised f), final_globals = snd (get_agent e keys g),
            attempts_made = 1, rotations_made = 0\<rparr>"
  using assms(2)
  by (simp add: attempt_body_failure [where invoke = invoke and attempt = attempt, OF assms(1)])

lemma run_query_first_attempt:
  "run_query e keys k invoke query sid g =
     for_attempts e keys k invoke query sid (0 # [1 ..< length keys + 1]) g"
  by (simp add: run_query_def upt_rec)

text \<open>
  When every attempt is throttled the loop uses up its range: it returns the exhaustion
  message after one attempt and one rotation per element of the range, which for
  \<^verbatim>\<open>run_query\<close> has \<open>length keys + 1\<close> elements whether or not the environment
  credential is set.
\<close>

lemma for_attempts_all_throttled:
  assumes "\<And>attempt agent s. \<exists>f. invoke attempt agent s = Inl f \<and> rate_limited_failure f"
    and "0 < max_keys e keys"
  shows "valid_index e keys g \<Longrightarrow>
         outcome (for_attempts e keys k invoke query sid as g) = Inr (Some exhausted_message)
       \<and> attempts_made (for_attempts e keys k invoke query sid as g) = length as
       \<and> rotations_made (for_attempts e keys k invoke query sid as g) = length as
       \<and> current_key_index (final_globals (for_attempts e keys k invoke query sid as g)) =
           (current_key_index g + int (length as)) mod max_keys e keys"
proof (induction as arbitrary: g)
  case Nil
  then show ?case
    by (simp add: valid_index_def)
next
  case (Cons a as)
  let ?g1 = "snd (get_agent e keys g)"
  let ?g2 = "?g1\<lparr>current_key_index := (current_key_index ?g1 + 1) mod max_keys e keys,
                 llm_instance := None, agent_graph := None\<rparr>"
  from assms(1) obtain d where d:
    "invoke a (fst (get_agent e keys g)) (AgentState k query sid) = Inl d" "rate_limited_failure d"
    by blast
  have step: "for_attempts e keys k invoke query sid (a # as) g =
      count_attempt (for_attempts e keys k invoke query sid as ?g2)"
    by (rule for_attempts_throttled [where invoke = invoke and attempt = a, OF d assms(2)])
  have idx1: "current_key_index ?g1 = current_key_index g"
    by (rule get_agent_index [OF Cons.prems])
  have v2: "valid_index e keys ?g2"
    using assms(2) by (simp add: valid_index_def)
  have "((current_key_index g + 1) mod max_keys e keys + int (length as)) mod max_keys e keys
          = (current_key_index g + (1 + int (length as))) mod max_keys e keys"
    by (simp add: mod_add_left_eq add.assoc)
  with Cons.IH [OF v2] idx1 show ?case
    unfolding step by (simp add: count_attempt_def add.commute)
qed

lemma run_query_all_throttled:
  assumes "\<And>attempt agent s. \<exists>f. invoke attempt agent s = Inl f \<and> rate_limited_failure f"
    and "valid_index e keys g"
  shows "outcome (run_query e keys k invoke query sid g) = Inr (Some exhausted_message)
       \<and> attempts_made (run_query e keys k invoke query sid g) = length keys + 1
       \<and> rotations_made (run_query e keys k invoke query sid g) = length keys + 1
       \<and> current_key_index (final_globals (run_query e keys k invoke query sid g)) =
           (current_key_index g + int (length keys) + 1) mod max_keys e keys"
  using for_attempts_all_throttled
          [where invoke = invoke and k = k and query = query and sid = sid
             and as = "[0 ..< length keys + 1]",
           OF assms(1) valid_index_pos [OF assms(2)] assms(2)]
  by (simp add: run_query_def ac_simps)

text \<open>
  C2, at the input where the code departs from it. With \<^verbatim>\<open>GOOGLE_API_KEY\<close> unset the
  pool is the three backup keys, \<open>max_keys = 3\<close>. A call whose every attempt is throttled
  returns the exhaustion message and does not raise, but it has made four outer attempts
  and four rotations, one more than the pool holds, and leaves the index at 1, one past
  where it started.
\<close>

theorem exhaustion_without_env_credential:
  "max_keys env_without_key three_keys = 3
   \<and> run_query env_without_key three_keys 2 always_throttled ''q'' None initial_globals =
       \<lparr>outcome = Inr (Some exhausted_message), final_globals = globals_at 1,
        attempts_made = 4, rotations_made = 4\<rparr>"
  by code_simp

text \<open>
  C4, as the code has it. Take the failure \<open>f\<close> of an outer attempt, on a non-empty pool.
  If \<open>f\<close> is an \<^verbatim>\<open>Exception\<close>, the handler catches it and it counts as throttling
  exactly when its lower-cased description contains one of the four terms. Then the runner
  rotates the pool by one position, clears the cached client and the compiled graph, and
  goes on with the attempts that remain, each started from a new record; with none
  remaining it returns the exhaustion message. An \<^verbatim>\<open>Exception\<close> that does not count as
  throttling is raised to the caller. If \<open>f\<close> is not an \<^verbatim>\<open>Exception\<close>, the handler does
  not catch it: whatever its text, it leaves \<^verbatim>\<open>run_query\<close> at once and nothing is rotated.
\<close>

theorem throttling_failure_rotates:
  assumes "invoke attempt (fst (get_agent e keys g)) (AgentState k query sid) = Inl f"
    and "0 < max_keys e keys"
  shows "for_attempts e keys k invoke query sid (attempt # rest) g =
           (case f of
              Exception d \<Rightarrow>
                if sublist ''rate limit'' (lower d) \<or> sublist ''quota'' (lower d)
                   \<or> sublist ''429'' (lower d) \<or> sublist ''resource exhausted'' (lower d)
                then count_attempt (for_attempts e keys k invoke query sid rest
                       ((snd (get_agent e keys g))
                          \<lparr>current_key_index :=
                             (current_key_index (snd (get_agent e keys g)) + 1) mod max_keys e keys,
                           llm_instance := None, agent_graph := None\<rparr>))
                else \<lparr>outcome = Inl (Raised (Exception d)),
                      final_globals = snd (get_agent e keys g),
                      attempts_made = 1, rotations_made = 0\<rparr>
            | BaseException d \<Rightarrow>
                \<lparr>outcome = Inl (Raised (BaseException d)),
                 final_globals = snd (get_agent e keys g),
                 attempts_made = 1, rotations_made = 0\<rparr>)
       \<and> is_rate_limited d' =
           (sublist ''rate limit'' (lower d') \<or> sublist ''quota'' (lower d')
            \<or> sublist ''429'' (lower d') \<or> sublist ''resource exhausted'' (lower d'))
       \<and> for_attempts e keys k invoke query sid [] g' =
           \<lparr>outcome = Inr (Some exhausted_message), final_globals = g',
            attempts_made = 0, rotations_made = 0\<rparr>"
proof (cases "rate_limited_failure f")
  case True
  with for_attempts_throttled [where invoke = invoke and attempt = attempt and rest = rest,
         OF assms(1) True assms(2)]
       rate_limited_failure_iff [of f] is_rate_limited_iff [of d']
  show ?thesis by (cases f) simp_all
next
  case False
  with for_attempts_fatal [where invoke = invoke and attempt = attempt and rest = rest,
         OF assms(1) False]
       rate_limited_failure_iff [of f] is_rate_limited_iff [of d']
  show ?thesis by (cases f) simp_all
qed

theorem throttling_failure_rotates_witness:
  "always_throttled 3 (fst (get_agent env_with_key three_keys (globals_at 3)))
       (AgentState 2 ''q'' None) = Inl (Exception ''429 Too Many Requests'')
   \<and> cancelled_with_429 0 (fst (get_agent env_with_key three_keys (globals_at 3)))
       (AgentState 2 ''q'' None) = Inl (BaseException ''429 Too Many Requests'')
   \<and> 0 < max_keys env_with_key three_keys
   \<and> for_attempts env_with_key three_keys 2 always_throttled ''q'' None [3] (globals_at 3) =
       \<lparr>outcome = Inr (Some exhausted_message), final_globals = globals_at 0,
        attempts_made = 1, rotations_made = 1\<rparr>
   \<and> for_attempts env_with_key three_keys 2 cancelled_with_429 ''q'' None [0, 1, 2, 3]
         (globals_at 3) =
       \<lparr>outcome = Inl (Raised (BaseException ''429 Too Many Requests'')),
        final_globals = snd (get_agent env_with_key three_keys (globals_at 3)),
        attempts_made = 1, rotations_made = 0\<rparr>"
proof -
  have h1: "always_throttled 3 (fst (get_agent env_with_key three_keys (globals_at 3)))
       (AgentState 2 ''q'' None) = Inl (Exception ''429 Too Many Requests'')"
    by (simp add: always_throttled_def)
  have h1': "cancelled_with_429 0 (fst (get_agent env_with_key three_keys (globals_at 3)))
       (AgentState 2 ''q'' None) = Inl (BaseException ''429 Too Many Requests'')"
    by (simp add: cancelled_with_429_def)
  have h2: "0 < max_keys env_with_key three_keys"
    by (simp add: max_keys_def env_with_key_def three_keys_def)
  have t: "sublist ''429'' (lower ''429 Too Many Requests'')"
    by code_simp
  have m: "max_keys env_with_key three_keys = 4"
    by (simp add: max_keys_def env_with_key_def three_keys_def)
  have i: "current_key_index (snd (get_agent env_with_key three_keys (globals_at 3))) = 3"
    by code_simp
  from throttling_failure_rotates
         [where invoke = always_throttled and attempt = 3 and rest = "[]", OF h1 h2] t
  have "for_attempts env_with_key three_keys 2 always_throttled ''q'' None [3] (globals_at 3) =
      count_attempt
        \<lparr>outcome = Inr (Some exhausted_message),
         final_globals = (snd (get_agent env_with_key three_keys (globals_at 3)))
            \<lparr>current_key_index := (3 + 1) mod 4, llm_instance := None, agent_graph := None\<rparr>,
         attempts_made = 0, rotations_made = 0\<rparr>"
    unfolding m i by simp
  then have a: "for_attempts env_with_key three_keys 2 always_throttled ''q'' None [3] (globals_at 3) =
       \<lparr>outcome = Inr (Some exhausted_message), final_globals = globals_at 0,
        attempts_made = 1, rotations_made = 1\<rparr>"
    by (simp add: count_attempt_def globals_at_def globals.equality)
  from throttling_failure_rotates
         [where invoke = cancelled_with_429 and attempt = 0 and rest = "[1, 2, 3]", OF h1' h2]
  have b: "for_attempts env_with_key three_keys 2 cancelled_with_429 ''q'' None [0, 1, 2, 3]
         (globals_at 3) =
       \<lparr>outcome = Inl (Raised (BaseException ''429 Too Many Requests'')),
        final_globals = snd (get_agent env_with_key three_keys (globals_at 3)),
        attempts_made = 1, rotations_made = 0\<rparr>"
    by simp
  from h1 h1' h2 a b show ?thesis
    by simp
qed

text \<open>
  The claim C4 as the specification words it fails three times. The description
  \<open>Quota exceeded\<close> contains none of the four terms, yet it is classified as throttling,
  because the runner lower-cases the description first. A call whose four attempts are
  all throttled makes four attempts and four rotations: the last throttling failure
  rotates the pool but starts no further attempt. And a failure that is not an
  \<^verbatim>\<open>Exception\<close> is not classified at all: with the text \<open>429 Too Many Requests\<close> it leaves
  the call after one attempt and no rotation.
\<close>

theorem classification_ignores_case:
  "is_rate_limited ''Quota exceeded''
   \<and> \<not> sublist ''rate limit'' ''Quota exceeded''
   \<and> \<not> sublist ''quota'' ''Quota exceeded''
   \<and> \<not> sublist ''429'' ''Quota exceeded''
   \<and> \<not> sublist ''resource exhausted'' ''Quota exceeded''
   \<and> attempts_made (run_query env_with_key three_keys 2 always_throttled ''q'' None initial_globals) = 4
   \<and> rotations_made (run_query env_with_key three_keys 2 always_throttled ''q'' None initial_globals) = 4
   \<and> sublist ''429'' ''429 Too Many Requests''
   \<and> outcome (run_query env_with_key three_keys 2 cancelled_with_429 ''q'' None initial_globals) =
       Inl (Raised (BaseException ''429 Too Many Requests''))
   \<and> attempts_made (run_query env_with_key three_keys 2 cancelled_with_429 ''q'' None initial_globals) = 1
   \<and> rotations_made (run_query env_with_key three_keys 2 cancelled_with_429 ''q'' None initial_globals) = 0"
  by code_simp

text \<open>
  C5, as the code has it. A failure of an outer attempt that the handler does not catch
  and classify as throttling is raised to the caller at once: whatever attempts remain, none
  is started and no rotation is made. On a pool state whose index is a position of the
  pool the index is left as it was when that attempt began; \<^verbatim>\<open>run_query\<close> begins with
  attempt 0 on the globals of the call, so for a failure of the first attempt that is the
  index before the call.
\<close>

theorem fatal_failure_propagates:
  assumes "invoke attempt (fst (get_agent e keys g)) (AgentState k query sid) = Inl f"
    and "\<not> rate_limited_failure f" and "valid_index e keys g"
  shows "for_attempts e keys k invoke query sid (attempt # rest) g =
           \<lparr>outcome = Inl (Raised f), final_globals = snd (get_agent e keys g),
            attempts_made = 1, rotations_made = 0\<rparr>
       \<and> current_key_index (snd (get_agent e keys g)) = current_key_index g
       \<and> run_query e keys k invoke query sid g =
           for_attempts e keys k invoke query sid (0 # [1 ..< length keys + 1]) g"
  using for_attempts_fatal [where invoke = invoke and attempt = attempt and rest = rest,
          OF assms(1,2)]
    get_agent_index [OF assms(3)]
    run_query_first_attempt [of e keys k invoke query sid g]
  by simp

theorem fatal_failure_propagates_witness:
  "always_fatal 0 (fst (get_agent env_with_key three_keys initial_globals))
       (AgentState 2 ''q'' None) = Inl (Exception ''connection reset'')
   \<and> \<not> rate_limited_failure (Exception ''connection reset'')
   \<and> valid_index env_with_key three_keys initial_globals
   \<and> outcome (run_query env_with_key three_keys 2 always_fatal ''q'' None initial_globals) =
       Inl (Raised (Exception ''connection reset''))
   \<and> attempts_made (run_query env_with_key three_keys 2 always_fatal ''q'' None initial_globals) = 1
   \<and> rotations_made (run_query env_with_key three_keys 2 always_fatal ''q'' None initial_globals) = 0
   \<and> current_key_index
       (final_globals (run_query env_with_key three_keys 2 always_fatal ''q'' None initial_globals)) =
       current_key_index initial_globals"
proof -
  have h1: "always_fatal 0 (fst (get_agent env_with_key three_keys initial_globals))
       (AgentState 2 ''q'' None) = Inl (Exception ''connection reset'')"
    by (simp add: always_fatal_def)
  have h2: "\<not> rate_limited_failure (Exception ''connection reset'')"
    by code_simp
  have h3: "valid_index env_with_key three_keys initial_globals"
    by (simp add: valid_index_def max_keys_def initial_globals_def env_with_key_def
          three_keys_def)
  from fatal_failure_propagates
         [where invoke = always_fatal and attempt = 0
            and rest = "[1 ..< length three_keys + 1]", OF h1 h2 h3]
  have "run_query env_with_key three_keys 2 always_fatal ''q'' None initial_globals =
          \<lparr>outcome = Inl (Raised (Exception ''connection reset'')),
           final_globals = snd (get_agent env_with_key three_keys initial_globals),
           attempts_made = 1, rotations_made = 0\<rparr>"
    and "current_key_index (snd (get_agent env_with_key three_keys initial_globals)) =
          current_key_index initial_globals"
    by simp_all
  with h1 h2 h3 show ?thesis
    by simp
qed

text \<open>
  The claim C5 as the specification words it fails when an earlier attempt of the same
  call was throttled: the first attempt is throttled and rotates the pool, the second
  fails otherwise and is raised, and the index after the call is 1, not the 0 from before
  the call.
\<close>

theorem fatal_after_throttled_has_rotated:
  "outcome (run_query env_with_key three_keys 2 throttled_then_fatal ''q'' None initial_globals) =
       Inl (Raised (Exception ''connection reset''))
   \<and> current_key_index initial_globals = 0
   \<and> current_key_index
       (final_globals
          (run_query env_with_key three_keys 2 throttled_then_fatal ''q'' None initial_globals)) = 1
   \<and> rotations_made
       (run_query env_with_key three_keys 2 throttled_then_fatal ''q'' None initial_globals) = 1"
  by code_simp

text \<open>
  C10, at the input where the code departs from it. When the graph hands back a
  dictionary whose \<^verbatim>\<open>final_response\<close> entry is present and holds \<^verbatim>\<open>None\<close>,
  \<^verbatim>\<open>run_query\<close> returns \<^verbatim>\<open>None\<close>, and when it holds the empty string it returns the
  empty string: \<^verbatim>\<open>dict.get\<close> falls back only for a missing key. The object branch of the
  same function does fall back for both.
\<close>

theorem none_answer_is_returned:
  "outcome (run_query env_with_key three_keys 2 answers_none_in_dict ''q'' None initial_globals) =
       Inr None
   \<and> response (StateDict [''final_response'' \<mapsto> None]) = None
   \<and> response (StateDict [''final_response'' \<mapsto> Some '''']) = Some ''''
   \<and> response (StateDict Map.empty) = Some ''No response generated''
   \<and> response (StateObject (AgentState 2 ''q'' None)) = Some ''No response generated''
   \<and> response (StateObject ((AgentState 2 ''q'' None)\<lparr>final_response := Some ''''\<rparr>)) =
       Some ''No response generated''"
  by code_simp

end
